theory Spec2Isabelle
  imports Main "HOL-Library.Sublist"
begin

section \<open>Strings, JSON values and the request context\<close>

text \<open>
  Go strings are byte sequences, and so is \<open>string\<close> here: \<open>length\<close> is Go's
  \<open>len\<close>, \<open>take 7\<close> is the slice \<open>token[:7]\<close>. The Spanish messages of the
  handlers contain accented letters; they are written with their UTF-8 bytes.
\<close>

definition msg_token_required :: string where
  "msg_token_required = ''Token de autorizaci'' @ [CHR 0xC3, CHR 0xB3] @ ''n requerido''"

definition msg_token_format :: string where
  "msg_token_format = ''Formato de token inv'' @ [CHR 0xC3, CHR 0xA1] @ ''lido''"

definition msg_email_registered :: string where
  "msg_email_registered = ''El email ya est'' @ [CHR 0xC3, CHR 0xA1] @ '' registrado''"

definition msg_password_error :: string where
  "msg_password_error = ''Error al procesar la contrase'' @ [CHR 0xC3, CHR 0xB1] @ ''a''"

definition msg_create_error :: string where
  "msg_create_error = ''Error al crear el usuario''"

definition msg_user_created :: string where
  "msg_user_created = ''Usuario creado exitosamente''"

definition msg_invalid_credentials :: string where
  "msg_invalid_credentials = ''Credenciales inv'' @ [CHR 0xC3, CHR 0xA1] @ ''lidas''"

definition msg_login_ok :: string where
  "msg_login_ok = ''Login exitoso''"

definition msg_list_error :: string where
  "msg_list_error = ''Error al obtener usuarios''"

definition msg_not_found :: string where
  "msg_not_found = ''Usuario no encontrado''"

definition msg_update_error :: string where
  "msg_update_error = ''Error al actualizar usuario''"

definition msg_user_updated :: string where
  "msg_user_updated = ''Usuario actualizado exitosamente''"

definition msg_delete_error :: string where
  "msg_delete_error = ''Error al eliminar usuario''"

definition msg_user_deleted :: string where
  "msg_user_deleted = ''Usuario eliminado exitosamente''"

type_synonym time = nat

text \<open>
  A response body is a JSON value. \<open>gin.H\<close> is a map from keys to values and is
  written as an object, a list of key and value pairs. \<open>JTime t\<close> stands for the
  timestamp string that \<open>time.Time\<close> marshals to.
\<close>

datatype json =
    JNull
  | JBool bool
  | JNumber nat
  | JString string
  | JTime time
  | JArray "json list"
  | JObject "(string \<times> json) list"

definition H_error :: "string \<Rightarrow> json" where
  "H_error msg = JObject [(''error'', JString msg)]"

definition H_message :: "string \<Rightarrow> json" where
  "H_message msg = JObject [(''message'', JString msg)]"

text \<open>
  The part of \<open>gin.Context\<close> the code reads and writes: the \<open>Authorization\<close> request
  header (\<open>c.GetHeader\<close> gives the empty string when the header is absent), the
  response written by \<open>c.JSON\<close>, and whether \<open>c.Abort\<close> has cancelled the pending
  handlers.
\<close>

record Context =
  Authorization :: string
  written :: "(nat \<times> json) option"
  aborted :: bool

definition JSON :: "nat \<Rightarrow> json \<Rightarrow> Context \<Rightarrow> Context" where
  "JSON code obj c = c\<lparr>written := Some (code, obj)\<rparr>"

definition Abort :: "Context \<Rightarrow> Context" where
  "Abort c = c\<lparr>aborted := True\<rparr>"

definition new_Context :: "string \<Rightarrow> Context" where
  "new_Context hdr = \<lparr>Authorization = hdr, written = None, aborted = False\<rparr>"

section \<open>Request structures and the user model\<close>

record RegisterRequest =
  Email :: string
  Password :: string
  Name :: string

record LoginRequest =
  Email :: string
  Password :: string

record UpdateUserRequest =
  Name :: string
  Email :: string

text \<open>
  \<open>database.User\<close> embeds \<open>gorm.Model\<close>, which contributes the primary key \<open>ID\<close>
  and the timestamps \<open>CreatedAt\<close>, \<open>UpdatedAt\<close> and \<open>DeletedAt\<close>; the last one is
  nullable. The zero \<open>time.Time\<close> is \<open>0\<close>.
\<close>

record User =
  ID :: nat
  CreatedAt :: time
  UpdatedAt :: time
  DeletedAt :: "time option"
  Email :: string
  Password :: string
  Name :: string
  Role :: string
  IsActive :: bool

text \<open>
  \<open>c.JSON(status, user)\<close> marshals every field of the structure: the promoted fields
  of \<open>gorm.Model\<close> under their Go names, the others under their \<open>json\<close> tags.
\<close>

definition User_json :: "User \<Rightarrow> json" where
  "User_json u = JObject
     [(''ID'', JNumber (ID u)),
      (''CreatedAt'', JTime (CreatedAt u)),
      (''UpdatedAt'', JTime (UpdatedAt u)),
      (''DeletedAt'', (case DeletedAt u of None \<Rightarrow> JNull | Some t \<Rightarrow> JTime t)),
      (''email'', JString (Email u)),
      (''password'', JString (Password u)),
      (''name'', JString (Name u)),
      (''role'', JString (Role u)),
      (''is_active'', JBool (IsActive u))]"

text \<open>The summary object the register and login handlers build by hand.\<close>

definition user_summary :: "User \<Rightarrow> json" where
  "user_summary u = JObject
     [(''id'', JNumber (ID u)),
      (''email'', JString (Email u)),
      (''name'', JString (Name u)),
      (''role'', JString (Role u))]"

section \<open>External collaborators\<close>

text \<open>
  What the handlers obtain from libraries and from the environment while serving one
  request: the validator's \<open>email\<close> format check, the bcrypt hash this call produces
  for a password (the salt is drawn inside the library), bcrypt's comparison of a
  stored hash with a password, the clock the ORM stamps rows with, and the database
  engine's answer to a query whose \<open>WHERE\<close> condition is a text of the request:
  \<open>raw_First E cond rows\<close> is what \<open>First\<close> returns for the condition \<open>cond\<close> on
  the table \<open>rows\<close>, a row or an error. Nothing is assumed of that answer; the model
  takes the query to be a read.
\<close>

datatype db_error = ErrRecordNotFound | ErrDuplicatedKey | ErrDriver

record externals =
  is_email :: "string \<Rightarrow> bool"
  bcrypt_hash :: "string \<Rightarrow> string"
  bcrypt_matches :: "string \<Rightarrow> string \<Rightarrow> bool"
  now :: time
  raw_First :: "string \<Rightarrow> User list \<Rightarrow> db_error + User"

datatype bcrypt_error = ErrPasswordTooLong | ErrMismatchedHashAndPassword

text \<open>
  \<open>bcrypt.GenerateFromPassword\<close> does not accept a password longer than 72 bytes and
  returns \<open>ErrPasswordTooLong\<close> for it; the cost \<open>bcrypt.DefaultCost\<close> is in range.
\<close>

definition GenerateFromPassword :: "externals \<Rightarrow> string \<Rightarrow> bcrypt_error + string" where
  "GenerateFromPassword E password =
     (if length password > 72 then Inl ErrPasswordTooLong
      else Inr (bcrypt_hash E password))"

definition CompareHashAndPassword :: "externals \<Rightarrow> string \<Rightarrow> string \<Rightarrow> bcrypt_error option" where
  "CompareHashAndPassword E hashedPassword password =
     (if bcrypt_matches E hashedPassword password then None
      else Some ErrMismatchedHashAndPassword)"

text \<open>\<open>strconv.FormatUint(n, 10)\<close>: the decimal digits of \<open>n\<close>.\<close>

fun FormatUint :: "nat \<Rightarrow> string" where
  "FormatUint n =
     (if n < 10 then [char_of (48 + n)]
      else FormatUint (n div 10) @ [char_of (48 + n mod 10)])"

declare FormatUint.simps [simp del]

text \<open>
  \<open>strconv.Atoi(s)\<close>: an optional sign, then one or more decimal digits and nothing
  else, denoting a value of Go's \<open>int\<close>, which has 64 bits on the platforms the
  service is built for; any other text, or a value out of range, is an error.
\<close>

definition is_digit :: "char \<Rightarrow> bool" where
  "is_digit ch = (48 \<le> (of_char ch :: nat) \<and> (of_char ch :: nat) \<le> 57)"

definition digits_value :: "string \<Rightarrow> nat" where
  "digits_value ds = foldl (\<lambda>v ch. 10 * v + (of_char ch - 48)) 0 ds"

definition Atoi :: "string \<Rightarrow> int option" where
  "Atoi s =
     (let negative = (s \<noteq> [] \<and> hd s = CHR ''-'');
          ds = (if s \<noteq> [] \<and> (hd s = CHR ''-'' \<or> hd s = CHR ''+'') then tl s else s)
      in if ds = [] \<or> \<not> list_all is_digit ds then None
         else
           let n = (if negative then - int (digits_value ds) else int (digits_value ds))
           in if - (2 ^ 63) \<le> n \<and> n < 2 ^ 63 then Some n else None)"

section \<open>Binding and validation\<close>

text \<open>
  \<open>c.ShouldBindJSON\<close> decodes the body into the request structure and then checks
  the \<open>binding\<close> tags field by field, in declaration order; for a field it reports
  the first tag that fails. A body that does not decode comes with the decoder's
  error text; a field absent from the body has Go's zero value, the empty string.

  The tag \<open>required\<close> rejects the zero value. The tag \<open>min=6\<close> on a string counts
  runes. A decoded JSON string is valid UTF-8, where the runes are the bytes that are
  not continuation bytes (\<open>0x80\<close> to \<open>0xBF\<close>).
\<close>

datatype 'a json_body = Undecodable string | Decoded 'a

definition RuneCountInString :: "string \<Rightarrow> nat" where
  "RuneCountInString s =
     length (filter (\<lambda>b. \<not> (128 \<le> (of_char b :: nat) \<and> (of_char b :: nat) < 192)) s)"

definition field_error :: "string \<Rightarrow> string \<Rightarrow> string \<Rightarrow> string" where
  "field_error struct field tag =
     ''Key: '' @ [CHR 0x27] @ struct @ ''.'' @ field @ [CHR 0x27] @
     '' Error:Field validation for '' @ [CHR 0x27] @ field @ [CHR 0x27] @
     '' failed on the '' @ [CHR 0x27] @ tag @ [CHR 0x27] @ '' tag''"

fun join_lines :: "string list \<Rightarrow> string" where
  "join_lines [] = []"
| "join_lines [e] = e"
| "join_lines (e # es) = e @ [CHR 0x0A] @ join_lines es"

definition validate_RegisterRequest :: "externals \<Rightarrow> RegisterRequest \<Rightarrow> string list" where
  "validate_RegisterRequest E req =
     (if RegisterRequest.Email req = [] then [field_error ''RegisterRequest'' ''Email'' ''required'']
      else if \<not> is_email E (RegisterRequest.Email req)
        then [field_error ''RegisterRequest'' ''Email'' ''email'']
      else []) @
     (if RegisterRequest.Password req = []
        then [field_error ''RegisterRequest'' ''Password'' ''required'']
      else if RuneCountInString (RegisterRequest.Password req) < 6
        then [field_error ''RegisterRequest'' ''Password'' ''min'']
      else []) @
     (if RegisterRequest.Name req = [] then [field_error ''RegisterRequest'' ''Name'' ''required'']
      else [])"

definition validate_LoginRequest :: "externals \<Rightarrow> LoginRequest \<Rightarrow> string list" where
  "validate_LoginRequest E req =
     (if LoginRequest.Email req = [] then [field_error ''LoginRequest'' ''Email'' ''required'']
      else if \<not> is_email E (LoginRequest.Email req)
        then [field_error ''LoginRequest'' ''Email'' ''email'']
      else []) @
     (if LoginRequest.Password req = []
        then [field_error ''LoginRequest'' ''Password'' ''required'']
      else [])"

definition validate_UpdateUserRequest :: "externals \<Rightarrow> UpdateUserRequest \<Rightarrow> string list" where
  "validate_UpdateUserRequest E req =
     (if UpdateUserRequest.Email req \<noteq> [] \<and> \<not> is_email E (UpdateUserRequest.Email req)
        then [field_error ''UpdateUserRequest'' ''Email'' ''email'']
      else [])"

definition ShouldBindJSON :: "('a \<Rightarrow> string list) \<Rightarrow> 'a json_body \<Rightarrow> string + 'a" where
  "ShouldBindJSON validate body =
     (case body of
        Undecodable err \<Rightarrow> Inl err
      | Decoded req \<Rightarrow> (if validate req = [] then Inr req else Inl (join_lines (validate req))))"

section \<open>The users table behind \<open>database.DB\<close>\<close>

text \<open>
  \<open>database.DB\<close> is the process-wide handle to a relational table \<open>users\<close> and the
  sequence that numbers its rows. The handlers reach it through five ORM calls, whose
  contract on this model is:
  \<^item> Because the model has a \<open>DeletedAt\<close> column, every query sees only the rows whose
    \<open>DeletedAt\<close> is null, and \<open>Delete\<close> is a soft delete: it sets \<open>DeletedAt\<close> and
    keeps the row.
  \<^item> The column \<open>email\<close> is declared \<open>unique\<close>: an insert or an update that would
    give two rows of the table the same email fails, and changes nothing.
  \<^item> \<open>First\<close> returns the matching row with the least primary key, or
    \<open>ErrRecordNotFound\<close>. Rows are kept in primary-key order, as \<open>Create\<close> appends
    them.
  \<^item> \<open>Create\<close> takes the next value of the sequence as \<open>ID\<close> and stamps
    \<open>CreatedAt\<close> and \<open>UpdatedAt\<close>.
  \<^item> \<open>Save\<close> of a value with a non-zero primary key updates every column of the
    visible row with that key and stamps \<open>UpdatedAt\<close>. (When no visible row has the
    key the ORM goes on to an upsert, which the model leaves out: the only call of
    \<open>Save\<close> is on a row that \<open>First\<close> has just returned.)
  A rejected insert leaves the rows as they were; the model leaves the sequence as it
  was too, which no handler observes. Failures of the connection itself are outside
  the model.
\<close>

record gorm_DB =
  users :: "User list"
  next_ID :: nat

definition live :: "User \<Rightarrow> bool" where
  "live u = (DeletedAt u = None)"

definition First_where_email :: "gorm_DB \<Rightarrow> string \<Rightarrow> db_error + User" where
  "First_where_email db email =
     (case find (\<lambda>u. live u \<and> Email u = email) (users db) of
        None \<Rightarrow> Inl ErrRecordNotFound
      | Some u \<Rightarrow> Inr u)"

definition First_by_id :: "gorm_DB \<Rightarrow> nat \<Rightarrow> db_error + User" where
  "First_by_id db uid =
     (case find (\<lambda>u. live u \<and> ID u = uid) (users db) of
        None \<Rightarrow> Inl ErrRecordNotFound
      | Some u \<Rightarrow> Inr u)"

text \<open>
  \<open>First(&user, id)\<close> with a text \<open>id\<close>. A text that \<open>strconv.Atoi\<close> accepts is
  compared with the primary key, and no key is negative. Any other text is itself the
  condition of the query, and the answer is the engine's; for the empty text, which
  the router never binds to a path parameter, there is no condition at all.
\<close>

definition First_inline :: "externals \<Rightarrow> gorm_DB \<Rightarrow> string \<Rightarrow> db_error + User" where
  "First_inline E db uid =
     (case Atoi uid of
        Some k \<Rightarrow> (if k < 0 then Inl ErrRecordNotFound else First_by_id db (nat k))
      | None \<Rightarrow>
          (if uid = [] then
             (case find live (users db) of
                None \<Rightarrow> Inl ErrRecordNotFound
              | Some u \<Rightarrow> Inr u)
           else raw_First E uid (users db)))"

definition Find_all :: "gorm_DB \<Rightarrow> db_error + User list" where
  "Find_all db = Inr (filter live (users db))"

definition Create :: "time \<Rightarrow> User \<Rightarrow> gorm_DB \<Rightarrow> db_error + (User \<times> gorm_DB)" where
  "Create t u db =
     (if Email u \<in> set (map Email (users db)) then Inl ErrDuplicatedKey
      else
        let u' = u\<lparr>ID := next_ID db, CreatedAt := t, UpdatedAt := t\<rparr>
        in Inr (u', db\<lparr>users := users db @ [u'], next_ID := next_ID db + 1\<rparr>))"

definition Save :: "time \<Rightarrow> User \<Rightarrow> gorm_DB \<Rightarrow> db_error + gorm_DB" where
  "Save t u db =
     (if Email u \<in> set (map Email (filter (\<lambda>r. ID r \<noteq> ID u) (users db)))
        then Inl ErrDuplicatedKey
      else Inr (db\<lparr>users :=
        map (\<lambda>r. if ID r = ID u \<and> live r then u\<lparr>UpdatedAt := t\<rparr> else r) (users db)\<rparr>))"

definition Delete :: "time \<Rightarrow> User \<Rightarrow> gorm_DB \<Rightarrow> db_error + gorm_DB" where
  "Delete t u db =
     Inr (db\<lparr>users :=
       map (\<lambda>r. if ID r = ID u \<and> live r then r\<lparr>DeletedAt := Some t\<rparr> else r) (users db)\<rparr>)"

text \<open>The table right after \<open>InitDB\<close> has migrated an empty database.\<close>

definition empty_DB :: gorm_DB where
  "empty_DB = \<lparr>users = [], next_ID = 1\<rparr>"

section \<open>The authorization middleware\<close>

type_synonym HandlerFunc = "Context \<Rightarrow> gorm_DB \<Rightarrow> Context \<times> gorm_DB"

text \<open>
  \<open>AuthMiddleware\<close> either writes a 401 response and aborts, or calls \<open>c.Next()\<close>, which
  runs the pending handlers of the chain. The pending handlers are the argument
  \<open>Next\<close>.
\<close>

definition AuthMiddleware :: "HandlerFunc \<Rightarrow> HandlerFunc" where
  "AuthMiddleware Next c db =
     (let token = Authorization c in
      if token = [] then (Abort (JSON 401 (H_error msg_token_required) c), db)
      else if length token < 7 \<or> take 7 token \<noteq> ''Bearer ''
        then (Abort (JSON 401 (H_error msg_token_format) c), db)
      else Next c db)"

section \<open>The handlers\<close>

definition HealthCheck :: HandlerFunc where
  "HealthCheck c db =
     (JSON 200 (JObject
        [(''status'', JString ''OK''),
         (''message'', JString ''API funcionando correctamente''),
         (''version'', JString ''1.0.0'')]) c, db)"

definition Register :: "externals \<Rightarrow> RegisterRequest json_body \<Rightarrow> HandlerFunc" where
  "Register E body c db =
     (case ShouldBindJSON (validate_RegisterRequest E) body of
        Inl err \<Rightarrow> (JSON 400 (H_error err) c, db)
      | Inr req \<Rightarrow>
        (case First_where_email db (RegisterRequest.Email req) of
           Inr existingUser \<Rightarrow> (JSON 400 (H_error msg_email_registered) c, db)
         | Inl _ \<Rightarrow>
           (case GenerateFromPassword E (RegisterRequest.Password req) of
              Inl _ \<Rightarrow> (JSON 500 (H_error msg_password_error) c, db)
            | Inr hashedPassword \<Rightarrow>
              (let user = \<lparr>ID = 0, CreatedAt = 0, UpdatedAt = 0, DeletedAt = None,
                           Email = RegisterRequest.Email req,
                           Password = hashedPassword,
                           Name = RegisterRequest.Name req,
                           Role = ''user'',
                           IsActive = True\<rparr>
               in case Create (now E) user db of
                    Inl _ \<Rightarrow> (JSON 500 (H_error msg_create_error) c, db)
                  | Inr (user', db') \<Rightarrow>
                      (JSON 201 (JObject
                         [(''message'', JString msg_user_created),
                          (''user'', user_summary user')]) c, db')))))"

definition Login :: "externals \<Rightarrow> LoginRequest json_body \<Rightarrow> HandlerFunc" where
  "Login E body c db =
     (case ShouldBindJSON (validate_LoginRequest E) body of
        Inl err \<Rightarrow> (JSON 400 (H_error err) c, db)
      | Inr req \<Rightarrow>
        (case First_where_email db (LoginRequest.Email req) of
           Inl _ \<Rightarrow> (JSON 401 (H_error msg_invalid_credentials) c, db)
         | Inr user \<Rightarrow>
           (case CompareHashAndPassword E (Password user) (LoginRequest.Password req) of
              Some _ \<Rightarrow> (JSON 401 (H_error msg_invalid_credentials) c, db)
            | None \<Rightarrow>
              (let token = ''jwt_token_simulado_'' @ FormatUint (ID user)
               in (JSON 200 (JObject
                     [(''message'', JString msg_login_ok),
                      (''token'', JString token),
                      (''user'', user_summary user)]) c, db)))))"

definition GetUsers :: HandlerFunc where
  "GetUsers c db =
     (case Find_all db of
        Inl _ \<Rightarrow> (JSON 500 (H_error msg_list_error) c, db)
      | Inr found \<Rightarrow>
          (JSON 200 (JArray (map (\<lambda>u. User_json (u\<lparr>Password := []\<rparr>)) found)) c, db))"

text \<open>
  The path parameter \<open>id\<close> is the text of the path segment, and the handlers pass it
  to \<open>First\<close> as it is.
\<close>

definition GetUser :: "externals \<Rightarrow> string \<Rightarrow> HandlerFunc" where
  "GetUser E uid c db =
     (case First_inline E db uid of
        Inl _ \<Rightarrow> (JSON 404 (H_error msg_not_found) c, db)
      | Inr user \<Rightarrow> (JSON 200 (User_json (user\<lparr>Password := []\<rparr>)) c, db))"

definition UpdateUser :: "externals \<Rightarrow> string \<Rightarrow> UpdateUserRequest json_body \<Rightarrow> HandlerFunc" where
  "UpdateUser E uid body c db =
     (case ShouldBindJSON (validate_UpdateUserRequest E) body of
        Inl err \<Rightarrow> (JSON 400 (H_error err) c, db)
      | Inr req \<Rightarrow>
        (case First_inline E db uid of
           Inl _ \<Rightarrow> (JSON 404 (H_error msg_not_found) c, db)
         | Inr user \<Rightarrow>
           (let user1 = (if UpdateUserRequest.Name req \<noteq> []
                         then user\<lparr>Name := UpdateUserRequest.Name req\<rparr> else user);
                user2 = (if UpdateUserRequest.Email req \<noteq> []
                         then user1\<lparr>Email := UpdateUserRequest.Email req\<rparr> else user1)
            in case Save (now E) user2 db of
                 Inl _ \<Rightarrow> (JSON 500 (H_error msg_update_error) c, db)
               | Inr db' \<Rightarrow>
                   (JSON 200 (JObject
                      [(''message'', JString msg_user_updated),
                       (''user'', User_json (user2\<lparr>UpdatedAt := now E, Password := []\<rparr>))]) c,
                    db'))))"

definition DeleteUser :: "externals \<Rightarrow> string \<Rightarrow> HandlerFunc" where
  "DeleteUser E uid c db =
     (case First_inline E db uid of
        Inl _ \<Rightarrow> (JSON 404 (H_error msg_not_found) c, db)
      | Inr user \<Rightarrow>
        (case Delete (now E) user db of
           Inl _ \<Rightarrow> (JSON 500 (H_error msg_delete_error) c, db)
         | Inr db' \<Rightarrow> (JSON 200 (H_message msg_user_deleted) c, db')))"

definition GetProfile :: HandlerFunc where
  "GetProfile c db =
     (JSON 200 (JObject
        [(''message'', JString ''Perfil del usuario''),
         (''profile'', JObject
            [(''id'', JNumber 1),
             (''email'', JString ''usuario@ejemplo.com''),
             (''name'', JString ''Usuario Ejemplo''),
             (''role'', JString ''user'')])]) c, db)"

section \<open>The routes\<close>

text \<open>
  The routes of the group \<open>/api/v1\<close>, each with what the router extracts for its
  handler: the path parameter and the request body.
\<close>

datatype route =
    GET_health
  | POST_auth_register "RegisterRequest json_body"
  | POST_auth_login "LoginRequest json_body"
  | GET_users
  | GET_users_id string
  | PUT_users_id string "UpdateUserRequest json_body"
  | DELETE_users_id string
  | GET_profile

fun handler_of :: "externals \<Rightarrow> route \<Rightarrow> HandlerFunc" where
  "handler_of E GET_health = HealthCheck"
| "handler_of E (POST_auth_register body) = Register E body"
| "handler_of E (POST_auth_login body) = Login E body"
| "handler_of E GET_users = GetUsers"
| "handler_of E (GET_users_id uid) = GetUser E uid"
| "handler_of E (PUT_users_id uid body) = UpdateUser E uid body"
| "handler_of E (DELETE_users_id uid) = DeleteUser E uid"
| "handler_of E GET_profile = GetProfile"

text \<open>The routes registered on the group that uses \<open>AuthMiddleware\<close>.\<close>

fun protected :: "route \<Rightarrow> bool" where
  "protected GET_health = False"
| "protected (POST_auth_register body) = False"
| "protected (POST_auth_login body) = False"
| "protected GET_users = True"
| "protected (GET_users_id uid) = True"
| "protected (PUT_users_id uid body) = True"
| "protected (DELETE_users_id uid) = True"
| "protected GET_profile = True"

definition SetupRoutes :: "externals \<Rightarrow> route \<Rightarrow> HandlerFunc" where
  "SetupRoutes E r =
     (if protected r then AuthMiddleware (handler_of E r) else handler_of E r)"

text \<open>Serving one request: a fresh context goes through the route's chain.\<close>

definition serve :: "externals \<Rightarrow> string \<Rightarrow> route \<Rightarrow> gorm_DB \<Rightarrow> Context \<times> gorm_DB" where
  "serve E hdr r db = SetupRoutes E r (new_Context hdr) db"

section \<open>Observations, table invariants and sample data\<close>

definition status :: "Context \<Rightarrow> nat option" where
  "status c = map_option fst (written c)"

text \<open>
  The constraints of the schema: \<open>ID\<close> is the primary key, \<open>email\<close> is unique, and
  the sequence is ahead of every key it has handed out.
\<close>

definition table_ok :: "gorm_DB \<Rightarrow> bool" where
  "table_ok db =
     (distinct (map ID (users db)) \<and> distinct (map Email (users db)) \<and>
      list_all (\<lambda>u. ID u < next_ID db) (users db))"

text \<open>The states of the table the service can get to from the freshly migrated one.\<close>

inductive reachable :: "gorm_DB \<Rightarrow> bool" where
  init: "reachable empty_DB"
| step: "reachable db \<Longrightarrow> serve E hdr r db = (c, db') \<Longrightarrow> reachable db'"

text \<open>
  Sample collaborators and rows, for running the handlers on concrete requests. The
  sample hash only has the look of a bcrypt hash. The sample engine answers two
  conditions, both true of every row (the second as SQLite reads a number that is not
  zero), and refuses the others.
\<close>

definition sample_externals :: externals where
  "sample_externals =
     \<lparr>is_email = (\<lambda>s. CHR ''@'' \<in> set s),
      bcrypt_hash = (\<lambda>p. ''$2a$10$'' @ rev p),
      bcrypt_matches = (\<lambda>h p. h = ''$2a$10$'' @ rev p),
      now = 2000,
      raw_First = (\<lambda>cond rows.
        if cond = ''1=1'' \<or> cond = ''9223372036854775808'' then
          (case find live rows of None \<Rightarrow> Inl ErrRecordNotFound | Some u \<Rightarrow> Inr u)
        else Inl ErrDriver)\<rparr>"

definition alice :: User where
  "alice = \<lparr>ID = 1, CreatedAt = 1000, UpdatedAt = 1000, DeletedAt = None,
            Email = ''a@b.com'', Password = ''$2a$10$1terces'', Name = ''A'',
            Role = ''user'', IsActive = True\<rparr>"

definition bob :: User where
  "bob = \<lparr>ID = 2, CreatedAt = 1500, UpdatedAt = 1500, DeletedAt = None,
          Email = ''c@d.com'', Password = ''$2a$10$2terces'', Name = ''B'',
          Role = ''user'', IsActive = True\<rparr>"

definition db_alice :: gorm_DB where
  "db_alice = \<lparr>users = [alice], next_ID = 2\<rparr>"

definition db_alice_bob :: gorm_DB where
  "db_alice_bob = \<lparr>users = [alice, bob], next_ID = 3\<rparr>"

section \<open>Admission by the authorization middleware\<close>

lemma Bearer_shape: "(length hdr < 7 \<or> take 7 hdr \<noteq> ''Bearer '') = (\<not> prefix ''Bearer '' hdr)"
proof (cases "length hdr < 7")
  case True
  then have "\<not> prefix ''Bearer '' hdr"
    by (auto dest: prefix_length_le)
  with True show ?thesis by simp
next
  case False
  have "(take 7 hdr = ''Bearer '') = prefix ''Bearer '' hdr"
  proof
    assume "take 7 hdr = ''Bearer ''"
    then have "hdr = ''Bearer '' @ drop 7 hdr"
      by (metis append_take_drop_id)
    then show "prefix ''Bearer '' hdr"
      by (metis prefixI)
  next
    assume "prefix ''Bearer '' hdr"
    then obtain t where "hdr = ''Bearer '' @ t"
      by (auto simp: prefix_def)
    then show "take 7 hdr = ''Bearer ''" by simp
  qed
  with False show ?thesis by simp
qed

lemma AuthMiddleware_empty:
  "AuthMiddleware Next (new_Context []) db =
     (\<lparr>Authorization = [], written = Some (401, H_error msg_token_required), aborted = True\<rparr>, db)"
  by (simp add: AuthMiddleware_def new_Context_def Abort_def JSON_def)

lemma AuthMiddleware_malformed:
  assumes "hdr \<noteq> []" and "\<not> prefix ''Bearer '' hdr"
  shows "AuthMiddleware Next (new_Context hdr) db =
     (\<lparr>Authorization = hdr, written = Some (401, H_error msg_token_format), aborted = True\<rparr>, db)"
proof -
  have "length hdr < 7 \<or> take 7 hdr \<noteq> ''Bearer ''"
    using assms(2) Bearer_shape [of hdr] by blast
  with assms(1) show ?thesis
    by (simp add: AuthMiddleware_def new_Context_def Abort_def JSON_def Let_def)
qed

lemma AuthMiddleware_admit:
  assumes "prefix ''Bearer '' hdr"
  shows "AuthMiddleware Next (new_Context hdr) db = Next (new_Context hdr) db"
proof -
  have "\<not> (length hdr < 7 \<or> take 7 hdr \<noteq> ''Bearer '')"
    using assms Bearer_shape [of hdr] by blast
  moreover have "hdr \<noteq> []" using assms by auto
  ultimately show ?thesis
    by (simp add: AuthMiddleware_def new_Context_def Let_def)
qed

lemma status_JSON [simp]: "status (JSON code obj c) = Some code"
  by (simp add: status_def JSON_def)

lemma protected_handler_not_401:
  "protected r \<Longrightarrow> status (fst (handler_of E r c db)) \<noteq> Some 401"
  by (cases r)
     (auto simp: GetUsers_def GetUser_def UpdateUser_def DeleteUser_def GetProfile_def
        Find_all_def Delete_def Let_def split: sum.splits prod.splits)

text \<open>
  Claim C1. On every protected route the chain is \<open>AuthMiddleware\<close> followed by the
  handler. With an empty \<open>Authorization\<close> header, or one that does not begin with
  \<open>Bearer \<close> (seven bytes), the middleware answers 401 with a message and aborts,
  whatever the pending handlers are: they are not run, and the table is untouched. With
  any header that begins with \<open>Bearer \<close> the handler runs. The answer is 401 exactly in
  the first two cases.
\<close>

theorem AuthMiddleware_rejects_iff:
  "protected r \<Longrightarrow>
     (hdr = [] \<longrightarrow>
        (\<forall>Next. AuthMiddleware Next (new_Context hdr) db =
           (\<lparr>Authorization = hdr, written = Some (401, H_error msg_token_required),
             aborted = True\<rparr>, db))) \<and>
     (hdr \<noteq> [] \<and> \<not> prefix ''Bearer '' hdr \<longrightarrow>
        (\<forall>Next. AuthMiddleware Next (new_Context hdr) db =
           (\<lparr>Authorization = hdr, written = Some (401, H_error msg_token_format),
             aborted = True\<rparr>, db))) \<and>
     (prefix ''Bearer '' hdr \<longrightarrow>
        serve E hdr r db = handler_of E r (new_Context hdr) db) \<and>
     serve E hdr r db = AuthMiddleware (handler_of E r) (new_Context hdr) db \<and>
     (status (fst (serve E hdr r db)) = Some 401) = (hdr = [] \<or> \<not> prefix ''Bearer '' hdr)"
proof -
  assume p: "protected r"
  have chain: "serve E hdr r db = AuthMiddleware (handler_of E r) (new_Context hdr) db"
    using p by (simp add: serve_def SetupRoutes_def)
  have admit: "prefix ''Bearer '' hdr \<Longrightarrow> serve E hdr r db = handler_of E r (new_Context hdr) db"
    by (simp add: chain AuthMiddleware_admit)
  have iff: "(status (fst (serve E hdr r db)) = Some 401) = (hdr = [] \<or> \<not> prefix ''Bearer '' hdr)"
  proof (cases "hdr = []")
    case True
    with chain show ?thesis by (simp add: AuthMiddleware_empty status_def)
  next
    case ne: False
    show ?thesis
    proof (cases "prefix ''Bearer '' hdr")
      case True
      with ne p show ?thesis
        by (simp add: admit protected_handler_not_401)
    next
      case False
      with ne show ?thesis
        by (simp add: chain AuthMiddleware_malformed status_def)
    qed
  qed
  show ?thesis
    using chain admit iff
    by (auto simp: AuthMiddleware_empty AuthMiddleware_malformed)
qed


theorem AuthMiddleware_rejects_iff_witness:
  "protected (GET_users_id ''999'') \<and>
   ''Basic abc'' \<noteq> [] \<and> \<not> prefix ''Bearer '' ''Basic abc'' \<and>
   serve sample_externals ''Basic abc'' (GET_users_id ''999'') db_alice =
     (\<lparr>Authorization = ''Basic abc'', written = Some (401, H_error msg_token_format),
       aborted = True\<rparr>, db_alice) \<and>
   status (fst (serve sample_externals ''Basic abc'' (GET_users_id ''999'') db_alice)) = Some 401"
  using AuthMiddleware_rejects_iff [of "GET_users_id ''999''" "''Basic abc''" db_alice sample_externals]
  by (simp add: status_def)

text \<open>
  Claim C10. The header \<open>Bearer \<close>, the prefix with an empty token after it, is
  admitted: on a protected route the handler runs and the answer is not 401.
\<close>

theorem AuthMiddleware_empty_token:
  "protected r \<Longrightarrow>
     AuthMiddleware Next (new_Context ''Bearer '') db = Next (new_Context ''Bearer '') db \<and>
     serve E ''Bearer '' r db = handler_of E r (new_Context ''Bearer '') db \<and>
     status (fst (serve E ''Bearer '' r db)) \<noteq> Some 401"
proof -
  assume p: "protected r"
  have shape: "prefix ''Bearer '' ''Bearer ''" by simp
  have run: "serve E ''Bearer '' r db = handler_of E r (new_Context ''Bearer '') db"
    using p by (simp only: serve_def SetupRoutes_def if_True AuthMiddleware_admit [OF shape])
  show ?thesis
    using p by (simp only: run AuthMiddleware_admit [OF shape] protected_handler_not_401
      simp_thms)
qed

theorem AuthMiddleware_empty_token_witness:
  "protected GET_profile \<and>
   serve sample_externals ''Bearer '' GET_profile db_alice =
     GetProfile (new_Context ''Bearer '') db_alice \<and>
   status (fst (serve sample_externals ''Bearer '' GET_profile db_alice)) = Some 200"
  using AuthMiddleware_empty_token [of GET_profile GetProfile db_alice sample_externals]
  by (simp add: GetProfile_def)

text \<open>
  Claim C9. For an admitted request, the profile route answers 200 with one fixed
  placeholder record, whatever the token after the prefix, the collaborators and the
  contents of the table, which it leaves as it was.
\<close>

theorem GetProfile_placeholder:
  "prefix ''Bearer '' hdr \<Longrightarrow>
     serve E hdr GET_profile db =
       (\<lparr>Authorization = hdr,
         written = Some (200, JObject
           [(''message'', JString ''Perfil del usuario''),
            (''profile'', JObject
               [(''id'', JNumber 1),
                (''email'', JString ''usuario@ejemplo.com''),
                (''name'', JString ''Usuario Ejemplo''),
                (''role'', JString ''user'')])]),
         aborted = False\<rparr>, db)"
proof -
  assume "prefix ''Bearer '' hdr"
  then have "serve E hdr GET_profile db = GetProfile (new_Context hdr) db"
    by (simp add: serve_def SetupRoutes_def AuthMiddleware_admit)
  then show ?thesis
    by (simp add: GetProfile_def JSON_def new_Context_def)
qed

theorem GetProfile_placeholder_witness:
  "prefix ''Bearer '' ''Bearer jwt_token_simulado_2'' \<and>
   written (fst (serve sample_externals ''Bearer jwt_token_simulado_2'' GET_profile db_alice_bob)) =
     written (fst (serve sample_externals ''Bearer x'' GET_profile empty_DB)) \<and>
   written (fst (serve sample_externals ''Bearer jwt_token_simulado_2'' GET_profile db_alice_bob)) =
     Some (200, JObject
       [(''message'', JString ''Perfil del usuario''),
        (''profile'', JObject
           [(''id'', JNumber 1),
            (''email'', JString ''usuario@ejemplo.com''),
            (''name'', JString ''Usuario Ejemplo''),
            (''role'', JString ''user'')])])"
  using GetProfile_placeholder [of "''Bearer jwt_token_simulado_2''" sample_externals db_alice_bob]
  by (simp add: serve_def SetupRoutes_def AuthMiddleware_def GetProfile_def JSON_def
      new_Context_def)

section \<open>Lookups and binding\<close>

lemma First_by_id_none:
  "\<not> (\<exists>u\<in>set (users db). live u \<and> ID u = X) \<Longrightarrow> First_by_id db X = Inl ErrRecordNotFound"
  by (auto simp: First_by_id_def find_None_iff split: option.splits dest: sym)

lemma First_by_id_found:
  "First_by_id db X = Inr u \<Longrightarrow> u \<in> set (users db) \<and> live u \<and> ID u = X"
  by (auto simp: First_by_id_def find_Some_iff split: option.splits)


lemma First_where_email_none:
  "\<not> (\<exists>u\<in>set (users db). live u \<and> Email u = e) \<Longrightarrow>
     First_where_email db e = Inl ErrRecordNotFound"
  by (auto simp: First_where_email_def find_None_iff split: option.splits dest: sym)

lemma First_where_email_found:
  "First_where_email db e = Inr u \<Longrightarrow> u \<in> set (users db) \<and> live u \<and> Email u = e"
  by (auto simp: First_where_email_def find_Some_iff split: option.splits)

lemma First_where_email_some:
  "\<exists>u\<in>set (users db). live u \<and> Email u = e \<Longrightarrow> \<exists>v. First_where_email db e = Inr v"
  by (cases "find (\<lambda>u. live u \<and> Email u = e) (users db)")
     (auto simp: First_where_email_def find_None_iff)

lemma First_inline_key:
  "Atoi uid = Some (int X) \<Longrightarrow> First_inline E db uid = First_by_id db X"
  by (simp add: First_inline_def)

text \<open>
  Every key below \<open>2 ^ 63\<close>, so every key the table can hold, is denoted by its
  decimal numeral, which \<open>strconv.Atoi\<close> accepts.
\<close>

lemma is_digit_char_of: "(d::nat) < 10 \<Longrightarrow> is_digit (char_of (48 + d))"
  by (simp add: is_digit_def)

lemma digit_value_char_of: "(d::nat) < 10 \<Longrightarrow> (of_char (char_of (48 + d)) :: nat) - 48 = d"
  by simp

lemma FormatUint_digits: "FormatUint n \<noteq> [] \<and> list_all is_digit (FormatUint n)"
proof (induction n rule: FormatUint.induct)
  case (1 n)
  show ?case
  proof (cases "n < 10")
    case True
    then show ?thesis
      by (subst (1 2) FormatUint.simps) (simp add: is_digit_char_of)
  next
    case False
    then show ?thesis
      using 1 by (subst (1 2) FormatUint.simps) (simp add: is_digit_char_of)
  qed
qed

lemma digits_value_snoc:
  "digits_value (ds @ [ch]) = 10 * digits_value ds + (of_char ch - 48)"
  by (simp add: digits_value_def)

lemma digits_value_FormatUint: "digits_value (FormatUint n) = n"
proof (induction n rule: FormatUint.induct)
  case (1 n)
  show ?case
  proof (cases "n < 10")
    case True
    then show ?thesis
      by (subst FormatUint.simps) (simp add: digits_value_def digit_value_char_of)
  next
    case False
    then have "digits_value (FormatUint (n div 10)) = n div 10"
      using 1 by simp
    then show ?thesis
      using False
      by (subst FormatUint.simps) (simp add: digits_value_snoc digit_value_char_of)
  qed
qed

lemma Atoi_FormatUint: "X < 2 ^ 63 \<Longrightarrow> Atoi (FormatUint X) = Some (int X)"
proof -
  assume bound: "X < 2 ^ 63"
  have ne: "FormatUint X \<noteq> []" and ds: "list_all is_digit (FormatUint X)"
    using FormatUint_digits by blast+
  then have "is_digit (hd (FormatUint X))"
    by (cases "FormatUint X") simp_all
  then have nosign: "hd (FormatUint X) \<noteq> CHR ''-''" "hd (FormatUint X) \<noteq> CHR ''+''"
    by (auto simp: is_digit_def)
  have "int X < 2 ^ 63"
    using bound by (metis of_nat_less_iff of_nat_numeral of_nat_power)
  moreover have "- (2 ^ 63) \<le> int X"
    by (rule order_trans [of _ 0]) simp_all
  ultimately show ?thesis
    using ne ds nosign by (simp add: Atoi_def Let_def digits_value_FormatUint)
qed

lemma ShouldBindJSON_valid:
  "validate req = [] \<Longrightarrow> ShouldBindJSON validate (Decoded req) = Inr req"
  by (simp add: ShouldBindJSON_def)

section \<open>Identifiers that resolve to no record\<close>

text \<open>
  When the path text is a numeral that \<open>strconv.Atoi\<close> accepts and no visible row
  has its value as key, the fetch, the update with a body that passes binding, and the
  delete handler each answer 404 with the not-found message and leave the table as it
  was; so do their routes for an admitted request.
\<close>

lemma missing_key_not_found:
  assumes "Atoi uid = Some k"
    and "\<not> (\<exists>u\<in>set (users db). live u \<and> int (ID u) = k)"
  shows "GetUser E uid c db = (JSON 404 (H_error msg_not_found) c, db) \<and>
     (validate_UpdateUserRequest E req = [] \<longrightarrow>
        UpdateUser E uid (Decoded req) c db = (JSON 404 (H_error msg_not_found) c, db)) \<and>
     DeleteUser E uid c db = (JSON 404 (H_error msg_not_found) c, db) \<and>
     (prefix ''Bearer '' hdr \<longrightarrow>
        serve E hdr (GET_users_id uid) db =
          (JSON 404 (H_error msg_not_found) (new_Context hdr), db) \<and>
        (validate_UpdateUserRequest E req = [] \<longrightarrow>
           serve E hdr (PUT_users_id uid (Decoded req)) db =
             (JSON 404 (H_error msg_not_found) (new_Context hdr), db)) \<and>
        serve E hdr (DELETE_users_id uid) db =
          (JSON 404 (H_error msg_not_found) (new_Context hdr), db))"
proof -
  have nf: "First_inline E db uid = Inl ErrRecordNotFound"
  proof (cases "k < 0")
    case True
    then show ?thesis by (simp add: First_inline_def assms(1))
  next
    case False
    then have "\<not> (\<exists>u\<in>set (users db). live u \<and> ID u = nat k)"
      using assms(2) by auto
    then have "First_by_id db (nat k) = Inl ErrRecordNotFound"
      by (rule First_by_id_none)
    with False show ?thesis by (simp add: First_inline_def assms(1))
  qed
  have get: "GetUser E uid c' db = (JSON 404 (H_error msg_not_found) c', db)" for c'
    by (simp add: GetUser_def nf)
  have del: "DeleteUser E uid c' db = (JSON 404 (H_error msg_not_found) c', db)" for c'
    by (simp add: DeleteUser_def nf)
  have upd: "UpdateUser E uid (Decoded req) c' db = (JSON 404 (H_error msg_not_found) c', db)"
    if "validate_UpdateUserRequest E req = []" for c'
    using that by (simp add: UpdateUser_def ShouldBindJSON_valid nf)
  have routes: "serve E hdr r db = handler_of E r (new_Context hdr) db"
    if "prefix ''Bearer '' hdr" for r
    using that by (simp add: serve_def SetupRoutes_def AuthMiddleware_admit)
  show ?thesis
    by (simp add: get del upd routes)
qed

text \<open>
  Claim C8 fails on the code for a path text that \<open>strconv.Atoi\<close> does not accept.
  Such an identifier is the key of no record, yet the handlers do not answer 404: the
  text becomes the condition of the query, and when the engine answers with a row \<open>u\<close>
  the fetch returns \<open>u\<close>, the delete soft-deletes the row with the key of \<open>u\<close>, and an
  update that passes binding and the unique constraint rewrites that row.
\<close>

theorem path_text_taken_as_condition:
  "Atoi uid = None \<Longrightarrow> uid \<noteq> [] \<Longrightarrow> raw_First E uid (users db) = Inr u \<Longrightarrow>
     GetUser E uid c db = (JSON 200 (User_json (u\<lparr>Password := []\<rparr>)) c, db) \<and>
     DeleteUser E uid c db =
       (JSON 200 (H_message msg_user_deleted) c,
        db\<lparr>users :=
          map (\<lambda>r. if ID r = ID u \<and> live r then r\<lparr>DeletedAt := Some (now E)\<rparr> else r)
            (users db)\<rparr>) \<and>
     (UpdateUserRequest.Email req = [] \<and> UpdateUserRequest.Name req \<noteq> [] \<and>
      Email u \<notin> set (map Email (filter (\<lambda>r. ID r \<noteq> ID u) (users db))) \<longrightarrow>
        UpdateUser E uid (Decoded req) c db =
          (JSON 200 (JObject
             [(''message'', JString msg_user_updated),
              (''user'', User_json (u\<lparr>Name := UpdateUserRequest.Name req,
                 UpdatedAt := now E, Password := []\<rparr>))]) c,
           db\<lparr>users :=
             map (\<lambda>r. if ID r = ID u \<and> live r
                       then u\<lparr>Name := UpdateUserRequest.Name req, UpdatedAt := now E\<rparr> else r)
               (users db)\<rparr>))"
proof -
  assume "Atoi uid = None" and "uid \<noteq> []" and "raw_First E uid (users db) = Inr u"
  then have found: "First_inline E db uid = Inr u"
    by (simp add: First_inline_def)
  have get: "GetUser E uid c db = (JSON 200 (User_json (u\<lparr>Password := []\<rparr>)) c, db)"
    by (simp add: GetUser_def found)
  have del: "DeleteUser E uid c db =
       (JSON 200 (H_message msg_user_deleted) c,
        db\<lparr>users :=
          map (\<lambda>r. if ID r = ID u \<and> live r then r\<lparr>DeletedAt := Some (now E)\<rparr> else r)
            (users db)\<rparr>)"
    by (simp add: DeleteUser_def found Delete_def)
  have upd: "UpdateUser E uid (Decoded req) c db =
          (JSON 200 (JObject
             [(''message'', JString msg_user_updated),
              (''user'', User_json (u\<lparr>Name := UpdateUserRequest.Name req,
                 UpdatedAt := now E, Password := []\<rparr>))]) c,
           db\<lparr>users :=
             map (\<lambda>r. if ID r = ID u \<and> live r
                       then u\<lparr>Name := UpdateUserRequest.Name req, UpdatedAt := now E\<rparr> else r)
               (users db)\<rparr>)"
    if "UpdateUserRequest.Email req = []" and "UpdateUserRequest.Name req \<noteq> []"
      and "Email u \<notin> set (map Email (filter (\<lambda>r. ID r \<noteq> ID u) (users db)))"
    using that
    by (simp add: UpdateUser_def ShouldBindJSON_def validate_UpdateUserRequest_def found
        Save_def Let_def)
  from get del upd show ?thesis by blast
qed

theorem path_text_taken_as_condition_witness:
  "Atoi ''1=1'' = None \<and> ''1=1'' \<noteq> [] \<and>
   raw_First sample_externals ''1=1'' (users db_alice) = Inr alice \<and>
   GetUser sample_externals ''1=1'' (new_Context ''Bearer t'') db_alice =
     (JSON 200 (User_json (alice\<lparr>Password := []\<rparr>)) (new_Context ''Bearer t''), db_alice) \<and>
   serve sample_externals ''Bearer t'' (GET_users_id ''1=1'') db_alice =
     (JSON 200 (User_json (alice\<lparr>Password := []\<rparr>)) (new_Context ''Bearer t''), db_alice) \<and>
   DeleteUser sample_externals ''1=1'' (new_Context ''Bearer t'') db_alice =
     (JSON 200 (H_message msg_user_deleted) (new_Context ''Bearer t''),
      \<lparr>users = [alice\<lparr>DeletedAt := Some 2000\<rparr>], next_ID = 2\<rparr>) \<and>
   UpdateUser sample_externals ''1=1''
     (Decoded \<lparr>UpdateUserRequest.Name = ''Mallory'', UpdateUserRequest.Email = []\<rparr>)
     (new_Context ''Bearer t'') db_alice =
     (JSON 200 (JObject
        [(''message'', JString msg_user_updated),
         (''user'', User_json (alice\<lparr>Name := ''Mallory'', UpdatedAt := 2000, Password := []\<rparr>))])
        (new_Context ''Bearer t''),
      \<lparr>users = [alice\<lparr>Name := ''Mallory'', UpdatedAt := 2000\<rparr>], next_ID = 2\<rparr>) \<and>
   Atoi ''9223372036854775808'' = None \<and>
   \<not> (\<exists>u\<in>set (users db_alice). ID u = 9223372036854775808) \<and>
   GetUser sample_externals ''9223372036854775808'' (new_Context ''Bearer t'') db_alice =
     (JSON 200 (User_json (alice\<lparr>Password := []\<rparr>)) (new_Context ''Bearer t''), db_alice)"
  using path_text_taken_as_condition [where E = sample_externals and uid = "''1=1''"
      and db = db_alice and u = alice and c = "new_Context ''Bearer t''"
      and req = "\<lparr>UpdateUserRequest.Name = ''Mallory'', UpdateUserRequest.Email = []\<rparr>"]
  by (simp add: Atoi_def is_digit_def digits_value_def Let_def sample_externals_def
      db_alice_def alice_def live_def GetUser_def First_inline_def serve_def SetupRoutes_def
      AuthMiddleware_def new_Context_def)


section \<open>Delete\<close>


lemma find_after_update:
  assumes "live w" and "ID w = X"
  shows "find (\<lambda>u. live u \<and> ID u = X)
           (map (\<lambda>r. if ID r = X \<and> live r then w else r) xs) =
         (if \<exists>r\<in>set xs. live r \<and> ID r = X then Some w else None)"
  using assms by (induction xs) auto

lemma soft_delete_keeps_ids:
  "map ID (map (\<lambda>r. if P r then r\<lparr>DeletedAt := d\<rparr> else r) xs) = map ID xs"
  by (induction xs) auto






section \<open>Update: what it may change\<close>

lemma ShouldBindJSON_Inr:
  "ShouldBindJSON validate body = Inr req \<Longrightarrow> body = Decoded req \<and> validate req = []"
  by (auto simp: ShouldBindJSON_def split: json_body.splits if_splits)

lemma Save_rows:
  "Save t w db = Inr db' \<Longrightarrow>
     db' = db\<lparr>users := map (\<lambda>r. if ID r = ID w \<and> live r then w\<lparr>UpdatedAt := t\<rparr> else r) (users db)\<rparr>"
  by (auto simp: Save_def split: if_splits)

lemma First_by_id_after_Save:
  assumes "Save t w db = Inr db'" and "live w" and "First_by_id db (ID w) = Inr u"
  shows "First_by_id db' (ID w) = Inr (w\<lparr>UpdatedAt := t\<rparr>)"
proof -
  have ex: "\<exists>r\<in>set (users db). live r \<and> ID r = ID w"
    using First_by_id_found [OF assms(3)] by blast
  have "live (w\<lparr>UpdatedAt := t\<rparr>)" and "ID (w\<lparr>UpdatedAt := t\<rparr>) = ID w"
    using assms(2) by (simp_all add: live_def)
  then have "find (\<lambda>u. live u \<and> ID u = ID w)
      (map (\<lambda>r. if ID r = ID w \<and> live r then w\<lparr>UpdatedAt := t\<rparr> else r) (users db)) =
      Some (w\<lparr>UpdatedAt := t\<rparr>)"
    using ex by (simp add: find_after_update)
  then show ?thesis
    by (simp add: Save_rows [OF assms(1)] First_by_id_def)
qed

text \<open>
  Claim C7. Let \<open>u\<close> be the record the lookup finds for \<open>X\<close>, which the path
  text denotes. After any update
  request the lookup finds a record \<open>u'\<close> with the same \<open>ID\<close>, \<open>Password\<close>,
  \<open>Role\<close>, \<open>IsActive\<close>, \<open>CreatedAt\<close> and \<open>DeletedAt\<close>. Its name is the old one or
  the one supplied, and the old one when the supplied name is empty; likewise its email.
  When the answer is 200 a supplied non-empty name or email is the stored one; when it
  is not 200 the table is as it was. (\<open>UpdatedAt\<close> is stamped by \<open>Save\<close>.)
\<close>

theorem UpdateUser_frame:
  "Atoi uid = Some (int X) \<Longrightarrow> First_by_id db X = Inr u \<Longrightarrow>
     (\<exists>u'. First_by_id (snd (UpdateUser E uid body c db)) X = Inr u' \<and>
        ID u' = ID u \<and> Password u' = Password u \<and> Role u' = Role u \<and>
        IsActive u' = IsActive u \<and> CreatedAt u' = CreatedAt u \<and> DeletedAt u' = DeletedAt u \<and>
        (case body of
           Undecodable err \<Rightarrow> Name u' = Name u \<and> Email u' = Email u
         | Decoded req \<Rightarrow>
             (Name u' = Name u \<or> Name u' = UpdateUserRequest.Name req) \<and>
             (Email u' = Email u \<or> Email u' = UpdateUserRequest.Email req) \<and>
             (UpdateUserRequest.Name req = [] \<longrightarrow> Name u' = Name u) \<and>
             (UpdateUserRequest.Email req = [] \<longrightarrow> Email u' = Email u) \<and>
             (status (fst (UpdateUser E uid body c db)) = Some 200 \<longrightarrow>
                Name u' = (if UpdateUserRequest.Name req = [] then Name u
                           else UpdateUserRequest.Name req) \<and>
                Email u' = (if UpdateUserRequest.Email req = [] then Email u
                            else UpdateUserRequest.Email req)))) \<and>
     (status (fst (UpdateUser E uid body c db)) \<noteq> Some 200 \<longrightarrow>
        snd (UpdateUser E uid body c db) = db)"
proof -
  assume "Atoi uid = Some (int X)"
  then have key: "First_inline E db uid = First_by_id db X"
    by (rule First_inline_key)
  assume f: "First_by_id db X = Inr u"
  have u: "live u" "ID u = X"
    using First_by_id_found [OF f] by auto
  show ?thesis
  proof (cases "ShouldBindJSON (validate_UpdateUserRequest E) body")
    case (Inl err)
    then have "UpdateUser E uid body c db = (JSON 400 (H_error err) c, db)"
      by (simp add: UpdateUser_def)
    then have r: "snd (UpdateUser E uid body c db) = db"
        "status (fst (UpdateUser E uid body c db)) = Some 400"
      by simp_all
    show ?thesis
      unfolding r using f
      by (intro conjI exI [of _ u]) (simp_all split: json_body.split)
  next
    case (Inr req)
    then have body: "body = Decoded req"
      by (rule ShouldBindJSON_Inr [THEN conjunct1])
    define user1 where
      "user1 = (if UpdateUserRequest.Name req \<noteq> [] then u\<lparr>Name := UpdateUserRequest.Name req\<rparr> else u)"
    define user2 where
      "user2 = (if UpdateUserRequest.Email req \<noteq> [] then user1\<lparr>Email := UpdateUserRequest.Email req\<rparr>
                else user1)"
    have u2: "live user2" "ID user2 = X"
      using u by (simp_all add: user1_def user2_def live_def)
    have run: "UpdateUser E uid body c db =
        (case Save (now E) user2 db of
           Inl e \<Rightarrow> (JSON 500 (H_error msg_update_error) c, db)
         | Inr db' \<Rightarrow>
             (JSON 200 (JObject
                [(''message'', JString msg_user_updated),
                 (''user'', User_json (user2\<lparr>UpdatedAt := now E, Password := []\<rparr>))]) c, db'))"
      unfolding user1_def user2_def
      by (simp add: UpdateUser_def Inr key f Let_def)
    show ?thesis
    proof (cases "Save (now E) user2 db")
      case (Inl e)
      then have "UpdateUser E uid body c db = (JSON 500 (H_error msg_update_error) c, db)"
        by (simp add: run)
      then have r: "snd (UpdateUser E uid body c db) = db"
          "status (fst (UpdateUser E uid body c db)) = Some 500"
        by simp_all
      show ?thesis
        unfolding r using f
        by (intro conjI exI [of _ u]) (simp_all split: json_body.split)
    next
      case saved: (Inr db')
      then have res: "UpdateUser E uid body c db =
          (JSON 200 (JObject
             [(''message'', JString msg_user_updated),
              (''user'', User_json (user2\<lparr>UpdatedAt := now E, Password := []\<rparr>))]) c, db')"
        by (simp add: run)
      have "First_by_id db' X = Inr (user2\<lparr>UpdatedAt := now E\<rparr>)"
        using First_by_id_after_Save [OF saved u2(1)] f u2(2) by simp
      then have found: "First_by_id (snd (UpdateUser E uid body c db)) X =
          Inr (user2\<lparr>UpdatedAt := now E\<rparr>)"
        by (simp add: res)
      have ok: "status (fst (UpdateUser E uid body c db)) = Some 200"
        by (simp add: res)
      show ?thesis
        unfolding ok
        by (intro conjI exI [of _ "user2\<lparr>UpdatedAt := now E\<rparr>"])
           (simp_all add: found [unfolded body] body user1_def user2_def)
    qed
  qed
qed


theorem UpdateUser_frame_witness:
  "Atoi ''1'' = Some 1 \<and> First_by_id db_alice 1 = Inr alice \<and>
   First_by_id
     (snd (UpdateUser sample_externals ''1''
        (Decoded \<lparr>UpdateUserRequest.Name = ''Alice'', UpdateUserRequest.Email = []\<rparr>)
        (new_Context ''Bearer t'') db_alice)) 1 =
     Inr (alice\<lparr>Name := ''Alice'', UpdatedAt := 2000\<rparr>) \<and>
   status (fst (UpdateUser sample_externals ''1''
        (Decoded \<lparr>UpdateUserRequest.Name = ''Alice'', UpdateUserRequest.Email = []\<rparr>)
        (new_Context ''Bearer t'') db_alice)) = Some 200"
  using UpdateUser_frame [where db = db_alice and X = 1 and u = alice
      and E = sample_externals and uid = "''1''" and c = "new_Context ''Bearer t''"
      and body = "Decoded \<lparr>UpdateUserRequest.Name = ''Alice'', UpdateUserRequest.Email = []\<rparr>"]
  by (simp add: First_inline_def First_by_id_def db_alice_def alice_def live_def
      UpdateUser_def ShouldBindJSON_def validate_UpdateUserRequest_def Save_def
      sample_externals_def Atoi_def is_digit_def digits_value_def Let_def)

section \<open>Registration with an email already in use\<close>

lemma First_where_email_live:
  assumes "u \<in> set (users db)" and "live u"
  shows "\<exists>v. First_where_email db (Email u) = Inr v"
  using assms First_where_email_some [of db "Email u"] by blast

text \<open>
  Claim C2, as amended. When a visible row has the email of a registration request
  that passes binding, the handler answers 400 with the duplicate-email message and
  leaves the table as it was.
\<close>

theorem Register_duplicate_email:
  "u \<in> set (users db) \<Longrightarrow> live u \<Longrightarrow> Email u = RegisterRequest.Email req \<Longrightarrow>
   validate_RegisterRequest E req = [] \<Longrightarrow>
     Register E (Decoded req) c db = (JSON 400 (H_error msg_email_registered) c, db)"
proof -
  assume "u \<in> set (users db)" and "live u" and e: "Email u = RegisterRequest.Email req"
    and valid: "validate_RegisterRequest E req = []"
  then obtain v where "First_where_email db (RegisterRequest.Email req) = Inr v"
    using First_where_email_live [of u db] by auto
  then show ?thesis
    by (simp add: Register_def ShouldBindJSON_valid valid)
qed

theorem Register_duplicate_email_witness:
  "alice \<in> set (users db_alice) \<and> live alice \<and> Email alice = ''a@b.com'' \<and>
   validate_RegisterRequest sample_externals
     \<lparr>RegisterRequest.Email = ''a@b.com'', RegisterRequest.Password = ''secret1'',
      RegisterRequest.Name = ''A''\<rparr> = [] \<and>
   Register sample_externals
     (Decoded \<lparr>RegisterRequest.Email = ''a@b.com'', RegisterRequest.Password = ''secret1'',
               RegisterRequest.Name = ''A''\<rparr>)
     (new_Context []) db_alice =
     (JSON 400 (H_error msg_email_registered) (new_Context []), db_alice)"
  using Register_duplicate_email [of alice db_alice
      "\<lparr>RegisterRequest.Email = ''a@b.com'', RegisterRequest.Password = ''secret1'',
        RegisterRequest.Name = ''A''\<rparr>" sample_externals "new_Context []"]
  by (simp add: db_alice_def alice_def live_def validate_RegisterRequest_def
      RuneCountInString_def sample_externals_def)

text \<open>
  Claim C2 as stated fails: binding comes first. A request with the email of an
  existing record and a password of three characters is answered with the validator's
  message for the password, not with the duplicate-email message.
\<close>

theorem Register_invalid_before_duplicate:
  "alice \<in> set (users db_alice) \<and> live alice \<and> Email alice = ''a@b.com'' \<and>
   Register sample_externals
     (Decoded \<lparr>RegisterRequest.Email = ''a@b.com'', RegisterRequest.Password = ''abc'',
               RegisterRequest.Name = ''A''\<rparr>)
     (new_Context []) db_alice =
     (JSON 400 (H_error (field_error ''RegisterRequest'' ''Password'' ''min'')) (new_Context []),
      db_alice) \<and>
   field_error ''RegisterRequest'' ''Password'' ''min'' \<noteq> msg_email_registered"
  by (simp add: db_alice_def alice_def live_def Register_def ShouldBindJSON_def
      validate_RegisterRequest_def RuneCountInString_def sample_externals_def
      field_error_def msg_email_registered_def)

text \<open>
  A row that is only soft-deleted still holds its email: the lookup does not see it,
  the insert is rejected by the unique constraint, and the answer is 500.
\<close>

lemma Register_email_of_deleted_row:
  "Register sample_externals
     (Decoded \<lparr>RegisterRequest.Email = ''a@b.com'', RegisterRequest.Password = ''secret1'',
               RegisterRequest.Name = ''A''\<rparr>)
     (new_Context []) \<lparr>users = [alice\<lparr>DeletedAt := Some 1800\<rparr>], next_ID = 2\<rparr> =
     (JSON 500 (H_error msg_create_error) (new_Context []),
      \<lparr>users = [alice\<lparr>DeletedAt := Some 1800\<rparr>], next_ID = 2\<rparr>)"
  by (simp add: Register_def ShouldBindJSON_def validate_RegisterRequest_def
      RuneCountInString_def sample_externals_def First_where_email_def live_def alice_def
      GenerateFromPassword_def Create_def)

section \<open>Login\<close>

text \<open>
  Claim C3, as amended. Of two login requests that pass binding, one with an email
  that no visible row has, the other with the email of a record whose hash does not
  match the password, both are answered 401 with the same message, and the table is as
  it was.
\<close>

theorem Login_failures_indistinguishable:
  "validate_LoginRequest E req1 = [] \<Longrightarrow> validate_LoginRequest E req2 = [] \<Longrightarrow>
   \<not> (\<exists>r\<in>set (users db). live r \<and> Email r = LoginRequest.Email req1) \<Longrightarrow>
   First_where_email db (LoginRequest.Email req2) = Inr u \<Longrightarrow>
   \<not> bcrypt_matches E (Password u) (LoginRequest.Password req2) \<Longrightarrow>
     Login E (Decoded req1) c db = (JSON 401 (H_error msg_invalid_credentials) c, db) \<and>
     Login E (Decoded req2) c db = (JSON 401 (H_error msg_invalid_credentials) c, db)"
proof -
  assume v1: "validate_LoginRequest E req1 = []" and v2: "validate_LoginRequest E req2 = []"
    and absent: "\<not> (\<exists>r\<in>set (users db). live r \<and> Email r = LoginRequest.Email req1)"
    and found: "First_where_email db (LoginRequest.Email req2) = Inr u"
    and wrong: "\<not> bcrypt_matches E (Password u) (LoginRequest.Password req2)"
  have "First_where_email db (LoginRequest.Email req1) = Inl ErrRecordNotFound"
    using absent by (rule First_where_email_none)
  then have one: "Login E (Decoded req1) c db = (JSON 401 (H_error msg_invalid_credentials) c, db)"
    by (simp add: Login_def ShouldBindJSON_valid v1)
  have two: "Login E (Decoded req2) c db = (JSON 401 (H_error msg_invalid_credentials) c, db)"
    using wrong by (simp add: Login_def ShouldBindJSON_valid v2 found CompareHashAndPassword_def)
  from one two show ?thesis ..
qed

theorem Login_failures_indistinguishable_witness:
  "validate_LoginRequest sample_externals
     \<lparr>LoginRequest.Email = ''ghost@x.io'', LoginRequest.Password = ''secret1''\<rparr> = [] \<and>
   validate_LoginRequest sample_externals
     \<lparr>LoginRequest.Email = ''a@b.com'', LoginRequest.Password = ''wrong''\<rparr> = [] \<and>
   \<not> (\<exists>r\<in>set (users db_alice). live r \<and> Email r = ''ghost@x.io'') \<and>
   First_where_email db_alice ''a@b.com'' = Inr alice \<and>
   \<not> bcrypt_matches sample_externals (Password alice) ''wrong'' \<and>
   Login sample_externals
     (Decoded \<lparr>LoginRequest.Email = ''ghost@x.io'', LoginRequest.Password = ''secret1''\<rparr>)
     (new_Context []) db_alice =
   Login sample_externals
     (Decoded \<lparr>LoginRequest.Email = ''a@b.com'', LoginRequest.Password = ''wrong''\<rparr>)
     (new_Context []) db_alice \<and>
   written (fst (Login sample_externals
     (Decoded \<lparr>LoginRequest.Email = ''a@b.com'', LoginRequest.Password = ''wrong''\<rparr>)
     (new_Context []) db_alice)) = Some (401, H_error msg_invalid_credentials)"
  using Login_failures_indistinguishable [of sample_externals
      "\<lparr>LoginRequest.Email = ''ghost@x.io'', LoginRequest.Password = ''secret1''\<rparr>"
      "\<lparr>LoginRequest.Email = ''a@b.com'', LoginRequest.Password = ''wrong''\<rparr>"
      db_alice alice "new_Context []"]
  by (simp add: validate_LoginRequest_def sample_externals_def db_alice_def alice_def
      live_def First_where_email_def JSON_def)

text \<open>
  Claim C3 as stated fails: binding comes first. A request whose email matches no
  record is answered 400 when its password is missing, or when its email is not
  well-formed.
\<close>

theorem Login_invalid_body_not_401:
  "\<not> (\<exists>r\<in>set (users db_alice). live r \<and> Email r = ''ghost@x.io'') \<and>
   Login sample_externals
     (Decoded \<lparr>LoginRequest.Email = ''ghost@x.io'', LoginRequest.Password = []\<rparr>)
     (new_Context []) db_alice =
     (JSON 400 (H_error (field_error ''LoginRequest'' ''Password'' ''required''))
        (new_Context []), db_alice) \<and>
   \<not> (\<exists>r\<in>set (users db_alice). live r \<and> Email r = ''nobody'') \<and>
   Login sample_externals
     (Decoded \<lparr>LoginRequest.Email = ''nobody'', LoginRequest.Password = ''secret1''\<rparr>)
     (new_Context []) db_alice =
     (JSON 400 (H_error (field_error ''LoginRequest'' ''Email'' ''email''))
        (new_Context []), db_alice)"
  by (simp add: Login_def ShouldBindJSON_def validate_LoginRequest_def sample_externals_def
      db_alice_def alice_def live_def)

section \<open>Registration of a new user\<close>

text \<open>What passing the binding tags of \<open>RegisterRequest\<close> amounts to.\<close>

lemma validate_RegisterRequest_ok:
  "(validate_RegisterRequest E req = []) =
     (RegisterRequest.Email req \<noteq> [] \<and> is_email E (RegisterRequest.Email req) \<and>
      6 \<le> RuneCountInString (RegisterRequest.Password req) \<and>
      RegisterRequest.Name req \<noteq> [])"
  by (auto simp: validate_RegisterRequest_def RuneCountInString_def)

text \<open>
  Claim C4, as amended. For a request with a well-formed email that no row of the
  table has (soft-deleted rows included), a password of at least 6 characters and at
  most 72 bytes, and a non-empty name, registration answers 201. It appends one row: the
  next identifier of the sequence, the email and name of the request, the hash bcrypt
  returned as password, role \<open>user\<close>, active. The body is the message and the
  object with exactly \<open>id\<close>, \<open>email\<close>, \<open>name\<close> and \<open>role\<close> of that row. When the
  constraints of the table hold, the identifier is new.
\<close>

theorem Register_success:
  "RegisterRequest.Email req \<noteq> [] \<Longrightarrow> is_email E (RegisterRequest.Email req) \<Longrightarrow>
   6 \<le> RuneCountInString (RegisterRequest.Password req) \<Longrightarrow>
   RegisterRequest.Name req \<noteq> [] \<Longrightarrow>
   length (RegisterRequest.Password req) \<le> 72 \<Longrightarrow>
   RegisterRequest.Email req \<notin> set (map Email (users db)) \<Longrightarrow>
     Register E (Decoded req) c db =
       (JSON 201 (JObject
          [(''message'', JString msg_user_created),
           (''user'', JObject
              [(''id'', JNumber (next_ID db)),
               (''email'', JString (RegisterRequest.Email req)),
               (''name'', JString (RegisterRequest.Name req)),
               (''role'', JString ''user'')])]) c,
        db\<lparr>users := users db @
             [\<lparr>ID = next_ID db, CreatedAt = now E, UpdatedAt = now E, DeletedAt = None,
               Email = RegisterRequest.Email req,
               Password = bcrypt_hash E (RegisterRequest.Password req),
               Name = RegisterRequest.Name req,
               Role = ''user'', IsActive = True\<rparr>],
           next_ID := next_ID db + 1\<rparr>) \<and>
     (table_ok db \<longrightarrow> next_ID db \<notin> set (map ID (users db)))"
proof -
  assume "RegisterRequest.Email req \<noteq> []" and "is_email E (RegisterRequest.Email req)"
    and "6 \<le> RuneCountInString (RegisterRequest.Password req)"
    and "RegisterRequest.Name req \<noteq> []"
  then have valid: "validate_RegisterRequest E req = []"
    by (simp add: validate_RegisterRequest_ok)
  assume short: "length (RegisterRequest.Password req) \<le> 72"
    and fresh: "RegisterRequest.Email req \<notin> set (map Email (users db))"
  have "\<not> (\<exists>u\<in>set (users db). live u \<and> Email u = RegisterRequest.Email req)"
    using fresh by (metis image_eqI set_map)
  then have nf: "First_where_email db (RegisterRequest.Email req) = Inl ErrRecordNotFound"
    by (rule First_where_email_none)
  have hash: "GenerateFromPassword E (RegisterRequest.Password req) =
      Inr (bcrypt_hash E (RegisterRequest.Password req))"
    using short by (simp add: GenerateFromPassword_def)
  have run: "Register E (Decoded req) c db =
       (JSON 201 (JObject
          [(''message'', JString msg_user_created),
           (''user'', JObject
              [(''id'', JNumber (next_ID db)),
               (''email'', JString (RegisterRequest.Email req)),
               (''name'', JString (RegisterRequest.Name req)),
               (''role'', JString ''user'')])]) c,
        db\<lparr>users := users db @
             [\<lparr>ID = next_ID db, CreatedAt = now E, UpdatedAt = now E, DeletedAt = None,
               Email = RegisterRequest.Email req,
               Password = bcrypt_hash E (RegisterRequest.Password req),
               Name = RegisterRequest.Name req,
               Role = ''user'', IsActive = True\<rparr>],
           next_ID := next_ID db + 1\<rparr>)"
    using fresh
    by (simp add: Register_def ShouldBindJSON_valid valid nf hash Create_def Let_def
        user_summary_def)
  have "table_ok db \<Longrightarrow> next_ID db \<notin> set (map ID (users db))"
    by (auto simp: table_ok_def list_all_iff)
  with run show ?thesis by blast
qed

theorem Register_success_witness:
  "is_email sample_externals ''a@b.com'' \<and> 6 \<le> RuneCountInString ''secret1'' \<and>
   length ''secret1'' \<le> 72 \<and>
   ''a@b.com'' \<notin> set (map Email (users empty_DB)) \<and>
   Register sample_externals
     (Decoded \<lparr>RegisterRequest.Email = ''a@b.com'', RegisterRequest.Password = ''secret1'',
               RegisterRequest.Name = ''A''\<rparr>)
     (new_Context []) empty_DB =
     (JSON 201 (JObject
        [(''message'', JString msg_user_created),
         (''user'', JObject
            [(''id'', JNumber 1), (''email'', JString ''a@b.com''),
             (''name'', JString ''A''), (''role'', JString ''user'')])]) (new_Context []),
      \<lparr>users =
         [\<lparr>ID = 1, CreatedAt = 2000, UpdatedAt = 2000, DeletedAt = None,
           Email = ''a@b.com'', Password = ''$2a$10$1terces'', Name = ''A'',
           Role = ''user'', IsActive = True\<rparr>],
       next_ID = 2\<rparr>)"
  using Register_success [where E = sample_externals and db = empty_DB and c = "new_Context []"
      and req = "\<lparr>RegisterRequest.Email = ''a@b.com'', RegisterRequest.Password = ''secret1'',
        RegisterRequest.Name = ''A''\<rparr>"]
  by (simp add: RuneCountInString_def sample_externals_def empty_DB_def)

text \<open>
  Claim C4 as stated fails: a valid request with a password of 73 bytes is answered
  500, because bcrypt rejects the password, and nothing is stored.
\<close>

theorem Register_long_password_fails:
  "validate_RegisterRequest sample_externals
     \<lparr>RegisterRequest.Email = ''a@b.com'',
      RegisterRequest.Password = ''correct horse battery staple correct horse battery staple correct horse b'',
      RegisterRequest.Name = ''A''\<rparr> = [] \<and>
   6 \<le> RuneCountInString ''correct horse battery staple correct horse battery staple correct horse b'' \<and>
   length ''correct horse battery staple correct horse battery staple correct horse b'' = 73 \<and>
   ''a@b.com'' \<notin> set (map Email (users empty_DB)) \<and>
   Register sample_externals
     (Decoded \<lparr>RegisterRequest.Email = ''a@b.com'',
               RegisterRequest.Password = ''correct horse battery staple correct horse battery staple correct horse b'',
               RegisterRequest.Name = ''A''\<rparr>)
     (new_Context []) empty_DB =
     (JSON 500 (H_error msg_password_error) (new_Context []), empty_DB)"
  by (simp add: validate_RegisterRequest_def RuneCountInString_def sample_externals_def
      empty_DB_def Register_def ShouldBindJSON_def First_where_email_def
      GenerateFromPassword_def)

section \<open>The constraints of the table hold in every reachable state\<close>

lemma table_ok_empty_DB: "table_ok empty_DB"
  by (simp add: table_ok_def empty_DB_def)

lemma Create_table_ok:
  assumes "table_ok db" and "Create t u db = Inr (u', db')"
  shows "table_ok db'"
proof -
  have fresh: "Email u \<notin> set (map Email (users db))"
    using assms(2) by (auto simp: Create_def split: if_splits)
  have db': "db' = db\<lparr>users := users db @ [u\<lparr>ID := next_ID db, CreatedAt := t, UpdatedAt := t\<rparr>],
      next_ID := next_ID db + 1\<rparr>"
    using assms(2) by (auto simp: Create_def Let_def split: if_splits)
  have below: "\<forall>r\<in>set (users db). ID r < next_ID db"
    using assms(1) by (simp add: table_ok_def list_all_iff)
  then have "next_ID db \<notin> set (map ID (users db))"
    by auto
  moreover have "\<forall>r\<in>set (users db). ID r < next_ID db + 1"
    using below by auto
  ultimately show ?thesis
    using assms(1) fresh by (simp add: db' table_ok_def list_all_iff)
qed

lemma update_keeps_ids:
  "ID w = k \<Longrightarrow> map ID (map (\<lambda>r. if ID r = k \<and> live r then w else r) xs) = map ID xs"
  by (induction xs) auto

lemma update_keeps_emails_distinct:
  assumes "distinct (map ID xs)" and "distinct (map Email xs)"
    and "\<forall>r\<in>set xs. ID r \<noteq> k \<longrightarrow> Email r \<noteq> Email w"
  shows "distinct (map Email (map (\<lambda>r. if ID r = k \<and> live r then w else r) xs))"
  using assms
proof (induction xs)
  case Nil
  then show ?case by simp
next
  case (Cons x xs)
  let ?f = "\<lambda>r. if ID r = k \<and> live r then w else r"
  have rest: "distinct (map Email (map ?f xs))"
    using Cons by simp
  have differ: "Email (?f x) \<noteq> Email (?f r)" if r: "r \<in> set xs" for r
  proof -
    have idr: "ID r \<noteq> ID x"
      using Cons.prems(1) r by (auto simp: image_iff)
    have er: "Email r \<noteq> Email x"
      using Cons.prems(2) r by (auto simp: image_iff)
    show ?thesis
    proof (cases "ID x = k \<and> live x")
      case True
      then have "ID r \<noteq> k" using idr by simp
      then show ?thesis
        using True Cons.prems(3) r by auto
    next
      case False
      show ?thesis
      proof (cases "ID r = k \<and> live r")
        case True
        then have "ID x \<noteq> k" using idr by auto
        then have "Email x \<noteq> Email w"
          using Cons.prems(3) by simp
        then show ?thesis
          using True False by auto
      next
        case False2: False
        then show ?thesis
          using False er by auto
      qed
    qed
  qed
  have "Email (?f x) \<notin> set (map Email (map ?f xs))"
  proof
    assume "Email (?f x) \<in> set (map Email (map ?f xs))"
    then obtain r where "r \<in> set xs" and "Email (?f x) = Email (?f r)"
      by (auto simp: image_iff)
    with differ show False by blast
  qed
  with rest show ?case by simp
qed

lemma Save_table_ok:
  assumes "table_ok db" and "Save t w db = Inr db'"
  shows "table_ok db'"
proof -
  let ?w = "w\<lparr>UpdatedAt := t\<rparr>"
  have rows: "users db' = map (\<lambda>r. if ID r = ID w \<and> live r then ?w else r) (users db)"
    and seq: "next_ID db' = next_ID db"
    using Save_rows [OF assms(2)] by simp_all
  have "Email w \<notin> set (map Email (filter (\<lambda>r. ID r \<noteq> ID w) (users db)))"
    using assms(2) by (auto simp: Save_def split: if_splits)
  then have others: "\<forall>r\<in>set (users db). ID r \<noteq> ID w \<longrightarrow> Email r \<noteq> Email ?w"
    by (auto simp: image_iff)
  have ids: "map ID (users db') = map ID (users db)"
    unfolding rows by (rule update_keeps_ids) simp
  have emails: "distinct (map Email (users db'))"
    unfolding rows using assms(1) others
    by (intro update_keeps_emails_distinct) (simp_all add: table_ok_def)
  have "list_all (\<lambda>u. ID u < next_ID db') (users db') =
      (\<forall>i\<in>set (map ID (users db')). i < next_ID db')"
    by (simp add: list_all_iff)
  also have "\<dots> = (\<forall>i\<in>set (map ID (users db)). i < next_ID db)"
    by (simp only: ids seq)
  also have "\<dots>"
    using assms(1) by (simp add: table_ok_def list_all_iff)
  finally have below: "list_all (\<lambda>u. ID u < next_ID db') (users db')" .
  show ?thesis
    using assms(1) ids emails below by (simp add: table_ok_def)
qed

lemma soft_delete_keeps_emails:
  "map Email (map (\<lambda>r. if P r then r\<lparr>DeletedAt := d\<rparr> else r) xs) = map Email xs"
  by (induction xs) auto

lemma Delete_table_ok:
  assumes "table_ok db" and "Delete t u db = Inr db'"
  shows "table_ok db'"
proof -
  have rows: "users db' =
      map (\<lambda>r. if ID r = ID u \<and> live r then r\<lparr>DeletedAt := Some t\<rparr> else r) (users db)"
    and seq: "next_ID db' = next_ID db"
    using assms(2) by (auto simp: Delete_def)
  have ids: "map ID (users db') = map ID (users db)"
    unfolding rows by (rule soft_delete_keeps_ids)
  have emails: "map Email (users db') = map Email (users db)"
    unfolding rows by (rule soft_delete_keeps_emails)
  have "list_all (\<lambda>u. ID u < next_ID db') (users db') =
      (\<forall>i\<in>set (map ID (users db')). i < next_ID db')"
    by (simp add: list_all_iff)
  also have "\<dots> = (\<forall>i\<in>set (map ID (users db)). i < next_ID db)"
    by (simp only: ids seq)
  also have "\<dots>"
    using assms(1) by (simp add: table_ok_def list_all_iff)
  finally have below: "list_all (\<lambda>u. ID u < next_ID db') (users db')" .
  show ?thesis
    using assms(1) below by (simp add: table_ok_def ids emails)
qed

lemma Register_table_ok:
  "table_ok db \<Longrightarrow> table_ok (snd (Register E body c db))"
  by (auto simp: Register_def Let_def split: sum.splits prod.splits dest: Create_table_ok)

lemma Login_table_ok:
  "table_ok db \<Longrightarrow> table_ok (snd (Login E body c db))"
  by (auto simp: Login_def Let_def split: sum.splits option.splits)

lemma UpdateUser_table_ok:
  "table_ok db \<Longrightarrow> table_ok (snd (UpdateUser E uid body c db))"
  by (auto simp: UpdateUser_def Let_def split: sum.splits dest: Save_table_ok)

lemma DeleteUser_table_ok:
  "table_ok db \<Longrightarrow> table_ok (snd (DeleteUser E uid c db))"
  by (auto simp: DeleteUser_def split: sum.splits dest: Delete_table_ok)

lemma handler_of_table_ok:
  "table_ok db \<Longrightarrow> table_ok (snd (handler_of E r c db))"
  by (cases r)
     (simp_all add: Register_table_ok Login_table_ok UpdateUser_table_ok DeleteUser_table_ok
        HealthCheck_def GetUsers_def GetUser_def GetProfile_def Find_all_def
        split: sum.splits)

lemma AuthMiddleware_table_ok:
  assumes "table_ok db" and "table_ok (snd (Next c db))"
  shows "table_ok (snd (AuthMiddleware Next c db))"
  using assms by (simp add: AuthMiddleware_def Let_def)

lemma serve_table_ok:
  "table_ok db \<Longrightarrow> table_ok (snd (serve E hdr r db))"
  by (simp add: serve_def SetupRoutes_def AuthMiddleware_table_ok handler_of_table_ok)

lemma reachable_table_ok: "reachable db \<Longrightarrow> table_ok db"
proof (induction rule: reachable.induct)
  case init
  show ?case by (rule table_ok_empty_DB)
next
  case (step db E hdr r c db')
  then show ?case
    using serve_table_ok [of db E hdr r] by simp
qed


section \<open>Update and the uniqueness of emails\<close>

lemma Save_duplicate:
  assumes "r \<in> set (users db)" and "ID r \<noteq> ID w" and "Email r = Email w"
  shows "Save t w db = Inl ErrDuplicatedKey"
proof -
  have "r \<in> set (filter (\<lambda>r. ID r \<noteq> ID w) (users db))"
    using assms(1,2) by simp
  then have "Email r \<in> set (map Email (filter (\<lambda>r. ID r \<noteq> ID w) (users db)))"
    by (simp only: set_map) (rule imageI)
  then show ?thesis
    by (simp add: Save_def assms(3))
qed

lemma reachable_db_alice: "reachable db_alice"
proof -
  have "serve (sample_externals\<lparr>now := 1000\<rparr>) []
      (POST_auth_register (Decoded \<lparr>RegisterRequest.Email = ''a@b.com'',
         RegisterRequest.Password = ''secret1'', RegisterRequest.Name = ''A''\<rparr>)) empty_DB =
      (JSON 201 (JObject [(''message'', JString msg_user_created), (''user'', user_summary alice)])
         (new_Context []), db_alice)"
    by (simp add: serve_def SetupRoutes_def Register_def ShouldBindJSON_def
        validate_RegisterRequest_def RuneCountInString_def sample_externals_def empty_DB_def
        First_where_email_def GenerateFromPassword_def Create_def Let_def db_alice_def alice_def)
  with reachable.init show ?thesis
    by (rule reachable.step)
qed

lemma reachable_db_alice_bob: "reachable db_alice_bob"
proof -
  have "serve (sample_externals\<lparr>now := 1500\<rparr>) []
      (POST_auth_register (Decoded \<lparr>RegisterRequest.Email = ''c@d.com'',
         RegisterRequest.Password = ''secret2'', RegisterRequest.Name = ''B''\<rparr>)) db_alice =
      (JSON 201 (JObject [(''message'', JString msg_user_created), (''user'', user_summary bob)])
         (new_Context []), db_alice_bob)"
    by (simp add: serve_def SetupRoutes_def Register_def ShouldBindJSON_def
        validate_RegisterRequest_def RuneCountInString_def sample_externals_def
        First_where_email_def GenerateFromPassword_def Create_def Let_def db_alice_def
        alice_def db_alice_bob_def bob_def live_def)
  with reachable_db_alice show ?thesis
    by (rule reachable.step)
qed

text \<open>
  Claim C6, as amended. The update handler makes no check of its own, but the
  \<open>unique\<close> constraint of the column does: in a reachable state, an update that
  passes binding and would give the record it finds the email of another row is answered
  500 and leaves the table as it was; and after any update no two rows share an email.
\<close>

theorem UpdateUser_keeps_email_unique:
  "reachable db \<Longrightarrow>
     distinct (map Email (users (snd (UpdateUser E uid body c db)))) \<and>
     (First_inline E db uid = Inr u \<and> r \<in> set (users db) \<and> ID r \<noteq> ID u \<and>
      validate_UpdateUserRequest E req = [] \<and>
      UpdateUserRequest.Email req \<noteq> [] \<and> UpdateUserRequest.Email req = Email r \<longrightarrow>
        UpdateUser E uid (Decoded req) c db = (JSON 500 (H_error msg_update_error) c, db))"
proof -
  assume "reachable db"
  then have "table_ok db"
    by (rule reachable_table_ok)
  then have "table_ok (snd (UpdateUser E uid body c db))"
    by (rule UpdateUser_table_ok)
  then have unique: "distinct (map Email (users (snd (UpdateUser E uid body c db))))"
    by (simp add: table_ok_def)
  have rejected: "UpdateUser E uid (Decoded req) c db = (JSON 500 (H_error msg_update_error) c, db)"
    if f: "First_inline E db uid = Inr u" and r: "r \<in> set (users db)" "ID r \<noteq> ID u"
      and valid: "validate_UpdateUserRequest E req = []"
      and e: "UpdateUserRequest.Email req \<noteq> []" "UpdateUserRequest.Email req = Email r"
  proof -
    define user1 where
      "user1 = (if UpdateUserRequest.Name req \<noteq> [] then u\<lparr>Name := UpdateUserRequest.Name req\<rparr> else u)"
    have idu: "ID user1 = ID u"
      by (simp add: user1_def)
    have "Save (now E) (user1\<lparr>Email := UpdateUserRequest.Email req\<rparr>) db = Inl ErrDuplicatedKey"
      using r e idu by (intro Save_duplicate [of r]) simp_all
    then show ?thesis
      using e(1) unfolding user1_def
      by (simp add: UpdateUser_def ShouldBindJSON_valid valid f Let_def)
  qed
  from unique rejected show ?thesis by blast
qed

theorem UpdateUser_keeps_email_unique_witness:
  "reachable db_alice_bob \<and>
   First_inline sample_externals db_alice_bob ''2'' = Inr bob \<and>
   alice \<in> set (users db_alice_bob) \<and> ID alice \<noteq> ID bob \<and>
   validate_UpdateUserRequest sample_externals
     \<lparr>UpdateUserRequest.Name = [], UpdateUserRequest.Email = ''a@b.com''\<rparr> = [] \<and>
   Email alice = ''a@b.com'' \<and>
   UpdateUser sample_externals ''2''
     (Decoded \<lparr>UpdateUserRequest.Name = [], UpdateUserRequest.Email = ''a@b.com''\<rparr>)
     (new_Context ''Bearer t'') db_alice_bob =
     (JSON 500 (H_error msg_update_error) (new_Context ''Bearer t''), db_alice_bob) \<and>
   distinct (map Email (users (snd (UpdateUser sample_externals ''2''
     (Decoded \<lparr>UpdateUserRequest.Name = [], UpdateUserRequest.Email = ''a@b.com''\<rparr>)
     (new_Context ''Bearer t'') db_alice_bob))))"
  using UpdateUser_keeps_email_unique [OF reachable_db_alice_bob,
      where E = sample_externals and uid = "''2''" and c = "new_Context ''Bearer t''"
      and u = bob and r = alice
      and body = "Decoded \<lparr>UpdateUserRequest.Name = [], UpdateUserRequest.Email = ''a@b.com''\<rparr>"
      and req = "\<lparr>UpdateUserRequest.Name = [], UpdateUserRequest.Email = ''a@b.com''\<rparr>"]
    reachable_db_alice_bob
  by (simp add: First_inline_def First_by_id_def db_alice_bob_def alice_def bob_def live_def
      validate_UpdateUserRequest_def sample_externals_def Atoi_def is_digit_def
      digits_value_def Let_def)

text \<open>
  Claim C6 as stated fails: there is no reachable state and no update request after
  which two visible rows share an email.
\<close>

theorem UpdateUser_never_shares_email:
  "\<not> (\<exists>E uid body c db. reachable db \<and>
        \<not> distinct (map Email (filter live (users (snd (UpdateUser E uid body c db))))))"
proof
  assume "\<exists>E uid body c db. reachable db \<and>
      \<not> distinct (map Email (filter live (users (snd (UpdateUser E uid body c db)))))"
  then obtain E uid body c db where db: "reachable db"
    and shared: "\<not> distinct (map Email (filter live (users (snd (UpdateUser E uid body c db)))))"
    by blast
  have "table_ok (snd (UpdateUser E uid body c db))"
    using db by (intro UpdateUser_table_ok reachable_table_ok)
  then have "distinct (map Email (users (snd (UpdateUser E uid body c db))))"
    by (simp add: table_ok_def)
  then have "distinct (map Email (filter live (users (snd (UpdateUser E uid body c db)))))"
    by (rule distinct_map_filter)
  with shared show False ..
qed

end
